theory Spec2Isabelle
  imports Complex_Main
begin

section \<open>Strings and numbers as the scripts use them\<close>

text \<open>
  Python floats are modelled by the real numbers they denote (the not-a-number and the
  infinite values are left out), Python integers by \<open>int\<close> and \<open>nat\<close>, and strings
  by \<open>string\<close>.
\<close>

definition digit_char :: "nat \<Rightarrow> char" where
  "digit_char d = ''0123456789'' ! d"

text \<open>\<open>str(n)\<close> for a non-negative integer: its decimal digits, no leading zero.\<close>

fun str_nat :: "nat \<Rightarrow> string" where
  "str_nat n = (if n < 10 then [digit_char n] else str_nat (n div 10) @ [digit_char (n mod 10)])"

declare str_nat.simps [simp del]


text \<open>
  Rounding to the nearest integer, ties to the even one: the rounding of the float
  formatter, which works on the exact value of the float.
\<close>

definition round_half_even :: "real \<Rightarrow> int" where
  "round_half_even x =
     (let f = \<lfloor>x\<rfloor>; d = x - of_int f
      in if d < 1 / 2 then f else if 1 / 2 < d then f + 1 else if even f then f else f + 1)"

text \<open>
  The format specification \<open>05.2f\<close>: two decimals, the sign first when the value is
  negative, then zeros up to a width of five characters.
\<close>

definition format_05_2f :: "real \<Rightarrow> string" where
  "format_05_2f v =
     (let k = nat (round_half_even (\<bar>v\<bar> * 100));
          sgn = (if v < 0 then ''-'' else '''');
          body = str_nat (k div 100) @ ''.'' @ [digit_char (k mod 100 div 10), digit_char (k mod 10)]
      in sgn @ replicate (5 - length sgn - length body) (CHR ''0'') @ body)"

text \<open>\<open>str.lower()\<close> on the ASCII letters; every other character is kept.\<close>

definition lower_char :: "char \<Rightarrow> char" where
  "lower_char c =
     (case map_of (zip ''ABCDEFGHIJKLMNOPQRSTUVWXYZ'' ''abcdefghijklmnopqrstuvwxyz'') c of
        Some l \<Rightarrow> l
      | None \<Rightarrow> c)"

definition lower :: "string \<Rightarrow> string" where
  "lower s = map lower_char s"

text \<open>
  \<open>Path.stem\<close>: the name without its last suffix; a dot that starts or ends the name
  does not begin a suffix.
\<close>

definition rfind_dot :: "string \<Rightarrow> nat option" where
  "rfind_dot name =
     (case filter (\<lambda>i. name ! i = CHR ''.'') (rev [0..<length name]) of
        [] \<Rightarrow> None | i # _ \<Rightarrow> Some i)"

definition stem :: "string \<Rightarrow> string" where
  "stem name =
     (case rfind_dot name of
        None \<Rightarrow> name
      | Some i \<Rightarrow> if 0 < i \<and> i + 1 < length name then take i name else name)"

definition endswith :: "string \<Rightarrow> string \<Rightarrow> bool" where
  "endswith s suf = (length suf \<le> length s \<and> drop (length s - length suf) s = suf)"

section \<open>The encode script (scripts/dac\_encode.py)\<close>

subsection \<open>Device selection\<close>

text \<open>
  What \<open>torch\<close> answers on the machine: whether a backend is available, and whether the
  test allocation on it succeeds (it raises otherwise).
\<close>

record torch_env =
  mps_is_available :: bool
  mps_alloc_ok :: bool
  cuda_is_available :: bool
  cuda_alloc_ok :: bool

datatype probe = MpsAvailable | MpsAlloc | CudaAvailable | CudaAlloc

text \<open>
  \<open>get_available_device\<close> returns the device together with the probes it made, in the
  order it made them.
\<close>

definition probe_cuda :: "torch_env \<Rightarrow> probe list \<Rightarrow> string \<times> probe list" where
  "probe_cuda env done =
     (if cuda_is_available env then
        (if cuda_alloc_ok env then (''cuda'', done @ [CudaAvailable, CudaAlloc])
         else (''cpu'', done @ [CudaAvailable, CudaAlloc]))
      else (''cpu'', done @ [CudaAvailable]))"

definition get_available_device :: "torch_env \<Rightarrow> string \<Rightarrow> string \<times> probe list" where
  "get_available_device env requested_device =
     (if lower requested_device \<noteq> ''auto'' then (requested_device, [])
      else if mps_is_available env then
        (if mps_alloc_ok env then (''mps'', [MpsAvailable, MpsAlloc])
         else probe_cuda env [MpsAvailable, MpsAlloc])
      else probe_cuda env [MpsAvailable])"

subsection \<open>Output file names\<close>

definition format_param_value :: "real \<Rightarrow> string" where
  "format_param_value v = (let v = max 0 (min 1 v) in take 5 (format_05_2f v))"

definition generate_output_filename :: "string \<Rightarrow> string \<Rightarrow> real \<Rightarrow> string" where
  "generate_output_filename original_name class_name param1 =
     (let formatted_param1 = format_param_value param1
      in class_name @ ''--param1-'' @ formatted_param1 @ ''.dac'')"

subsection \<open>The encoding run\<close>

record encode_args =
  input_dir :: string
  output_dir :: string
  model_bitrate :: string
  n_quantizers :: int
  device :: string
  batch_size :: int
  class_name :: string
  param1 :: real
  randomize_param1 :: bool

text \<open>
  A \<open>pathlib\<close> path: \<open>Path s\<close> is the path made from the string \<open>s\<close>, and \<open>Child p n\<close> is
  \<open>p / n\<close>. \<open>Path.name\<close> is the last component of the path.
\<close>

datatype path = Path string | Child path string

fun split_slash :: "string \<Rightarrow> string list" where
  "split_slash [] = [[]]"
| "split_slash (c # cs) =
     (if c = CHR ''/'' then [] # split_slash cs
      else (case split_slash cs of [] \<Rightarrow> [[c]] | p # ps \<Rightarrow> (c # p) # ps))"

fun path_name :: "path \<Rightarrow> string" where
  "path_name (Path s) =
     (case rev (filter (\<lambda>p. p \<noteq> [] \<and> p \<noteq> ''.'') (split_slash s)) of
        [] \<Rightarrow> [] | p # _ \<Rightarrow> p)"
| "path_name (Child p n) = n"

text \<open>
  What \<open>--input_dir\<close> names on disk: nothing, a directory (the names of its entries, in
  the order the glob lists them), or something that is not a directory.
\<close>

datatype input_path = Missing | Directory "string list" | Single_File

datatype level = Info | Warning | Error

type_synonym log = "(level \<times> string) list"

text \<open>
  One call of the codec library's \<open>encode\<close>, by its arguments. The library is not part of
  the script: \<open>encode\<close> is a parameter of the model, which says for a call whether it returns
  (\<open>None\<close>) or what it raises, an \<open>AssertionError\<close> or another exception, with its text.
\<close>

record encode_call =
  enc_input :: path
  enc_output :: path
  enc_model_bitrate :: string
  enc_n_quantizers :: int
  enc_device :: string
  enc_batch_size :: int

datatype raised = Assertion_Error string | Other_Exception string

definition encode_one :: "encode_args \<Rightarrow> string \<Rightarrow> path \<Rightarrow> real \<Rightarrow> encode_call" where
  "encode_one args dev audio_file p =
     \<lparr>enc_input = audio_file,
      enc_output =
        Child (Path (output_dir args))
          (generate_output_filename (stem (path_name audio_file)) (class_name args) p),
      enc_model_bitrate = model_bitrate args, enc_n_quantizers = n_quantizers args,
      enc_device = dev, enc_batch_size = batch_size args\<rparr>"

text \<open>
  The loop over the audio files: the calls made, and what the last one raised if one did
  (the loop ends there). \<open>rnd i\<close> is what the \<open>i\<close>-th call of \<open>random.random()\<close> returns;
  \<open>i\<close> counts the calls made so far.
\<close>

fun encode_files ::
  "(encode_call \<Rightarrow> raised option) \<Rightarrow> encode_args \<Rightarrow> string \<Rightarrow> (nat \<Rightarrow> real) \<Rightarrow> nat \<Rightarrow>
   path list \<Rightarrow> encode_call list \<times> raised option" where
  "encode_files encode args dev rnd i [] = ([], None)"
| "encode_files encode args dev rnd i (audio_file # rest) =
     (let p = (if randomize_param1 args then rnd i else param1 args);
          i' = (if randomize_param1 args then Suc i else i);
          c = encode_one args dev audio_file p
      in case encode c of
           Some e \<Rightarrow> ([c], Some e)
         | None \<Rightarrow> (case encode_files encode args dev rnd i' rest of (cs, r) \<Rightarrow> (c # cs, r)))"

text \<open>The messages of the script.\<close>

datatype encode_message =
    Input_directory_does_not_exist path
  | Assertion_error string
  | If_device_error_try_again_with_cpu string
  | Error_during_encoding string
  | Traceback

definition except_log :: "string \<Rightarrow> raised option \<Rightarrow> (level \<times> encode_message) list" where
  "except_log dev r =
     (case r of
        None \<Rightarrow> []
      | Some (Assertion_Error e) \<Rightarrow>
          (Error, Assertion_error e) #
          (if dev \<noteq> ''cpu'' then [(Info, If_device_error_try_again_with_cpu dev)] else [])
      | Some (Other_Exception e) \<Rightarrow> [(Error, Error_during_encoding e), (Error, Traceback)])"

text \<open>
  \<open>main\<close>: the warnings and errors it logs (of the informational lines only the hint after
  an assertion error is kept) and the calls of \<open>encode\<close> it makes. The making of the
  output directory is not modelled.
\<close>

definition encode_main ::
  "(encode_call \<Rightarrow> raised option) \<Rightarrow> torch_env \<Rightarrow> encode_args \<Rightarrow> input_path \<Rightarrow> (nat \<Rightarrow> real) \<Rightarrow>
   (level \<times> encode_message) list \<times> encode_call list" where
  "encode_main encode env args0 inp rnd =
     (let args = args0\<lparr>param1 := max 0 (min 1 (param1 args0))\<rparr>;
          input_dir = Path (input_dir args)
      in case inp of
           Missing \<Rightarrow> ([(Error, Input_directory_does_not_exist input_dir)], [])
         | Directory names \<Rightarrow>
             (let dev = fst (get_available_device env (device args));
                  audio_files = map (Child input_dir) (filter (\<lambda>n. endswith n ''.wav'') names) @
                                map (Child input_dir) (filter (\<lambda>n. endswith n ''.mp3'') names);
                  (calls, r) = encode_files encode args dev rnd 0 audio_files
              in (except_log dev r, calls))
         | Single_File \<Rightarrow>
             (let dev = fst (get_available_device env (device args));
                  p = (if randomize_param1 args then rnd 0 else param1 args);
                  c = encode_one args dev input_dir p
              in (except_log dev (encode c), [c])))"

section \<open>Files, spreadsheets and exceptions\<close>

text \<open>
  A file is known by its content, which the scripts never look into. A spreadsheet is the
  list of its rows; each row has the two columns of the schema.
\<close>

type_synonym content = nat

type_synonym directory = "string \<rightharpoonup> content"

record row =
  Class_Name :: string
  Full_File_Name :: string

type_synonym sheet = "row list"

datatype exn = FileNotFoundError string | ValueError string

text \<open>\<open>os.path.join\<close> of two parts, on POSIX.\<close>

definition path_join :: "string \<Rightarrow> string \<Rightarrow> string" where
  "path_join a b =
     (if b \<noteq> [] \<and> hd b = CHR ''/'' then b
      else if a = [] \<or> last a = CHR ''/'' then a @ b
      else a @ ''/'' @ b)"

section \<open>The reorganize script (scripts/reorganize\_dac\_files.py)\<close>

record reorganize_args =
  train_excel :: string
  val_excel :: string
  source_dir :: string
  train_dir :: string
  val_dir :: string
  move :: bool

text \<open>
  The part of the disk the script touches: the spreadsheets that can be read, by path, and
  the three directories \<open>--source-dir\<close>, \<open>--train-dir\<close> and \<open>--val-dir\<close> (\<open>None\<close> when the
  directory does not exist). The three are distinct directories that hold regular files,
  and the file names in the sheets are plain names.
\<close>

record disk =
  excel :: "string \<rightharpoonup> sheet"
  source :: "directory option"
  train :: "directory option"
  val :: "directory option"

text \<open>\<open>os.makedirs(d, exist_ok=True)\<close>: the directory afterwards.\<close>

definition makedirs :: "directory option \<Rightarrow> directory" where
  "makedirs d = (case d of None \<Rightarrow> Map.empty | Some files \<Rightarrow> files)"

text \<open>
  One round of the loop in \<open>process_files\<close>, on the source directory, the destination
  directory and the log. \<open>shutil.move\<close> and \<open>shutil.copy2\<close> write the destination path
  whether or not a file is there already; the script makes no test of its own.
\<close>

definition process_file ::
  "reorganize_args \<Rightarrow> string \<Rightarrow> directory \<times> directory \<times> log \<Rightarrow> directory \<times> directory \<times> log" where
  "process_file args file_name st =
     (case st of (src, dest, lg) \<Rightarrow>
        (case src file_name of
           Some c \<Rightarrow>
             if move args then (src(file_name := None), dest(file_name \<mapsto> c), lg)
             else (src, dest(file_name \<mapsto> c), lg)
         | None \<Rightarrow>
             (src, dest,
              lg @ [(Warning, ''File not found: '' @ path_join (source_dir args) file_name)])))"

fun process_files ::
  "reorganize_args \<Rightarrow> string list \<Rightarrow> directory \<times> directory \<times> log \<Rightarrow> directory \<times> directory \<times> log" where
  "process_files args [] st = st"
| "process_files args (file_name # rest) st = process_files args rest (process_file args file_name st)"

definition missing_warning :: "string \<Rightarrow> string list \<Rightarrow> directory \<Rightarrow> log" where
  "missing_warning desc files src =
     (let missing = filter (\<lambda>f. src f = None) files
      in if missing \<noteq> []
         then [(Warning, str_nat (length missing) @ '' '' @ desc @ '' files not found in source directory'')]
         else [])"

text \<open>
  \<open>main\<close>. A spreadsheet that cannot be read ends the run after the message; a missing
  source directory makes \<open>os.listdir\<close> raise, which nothing catches. A printed line that
  starts with \<open>Warning:\<close> or \<open>Error\<close> is logged with that level and the text after it (for
  the error, without the text of the exception); the other printed lines are not kept.
\<close>

definition reorganize_main :: "reorganize_args \<Rightarrow> disk \<Rightarrow> exn + (log \<times> disk)" where
  "reorganize_main args d0 =
     (let d = d0\<lparr>train := Some (makedirs (train d0)), val := Some (makedirs (val d0))\<rparr>
      in case (excel d (train_excel args), excel d (val_excel args)) of
           (Some train_df, Some val_df) \<Rightarrow>
             (let train_files = map Full_File_Name train_df;
                  val_files = map Full_File_Name val_df
              in case source d of
                   None \<Rightarrow> Inl (FileNotFoundError (source_dir args))
                 | Some src \<Rightarrow>
                     (let lg = missing_warning ''training'' train_files src @
                               missing_warning ''validation'' val_files src;
                          (src1, train1, lg1) =
                             process_files args train_files (src, makedirs (train d0), lg);
                          (src2, val1, lg2) =
                             process_files args val_files (src1, makedirs (val d0), lg1)
                      in Inr (lg2, d\<lparr>source := Some src2, train := Some train1, val := Some val1\<rparr>)))
         | _ \<Rightarrow> Inr ([(Error, ''Error reading Excel files'')], d))"

section \<open>The segment extractor (wav-extract.py)\<close>



section \<open>The splitter (split\_excel\_data.py)\<close>











section \<open>Directories with subdirectories\<close>

text \<open>
  What a name in a directory holds: a regular file, or a directory with its own entries.
  A listing gives the entries of a directory in the order the system lists them; the
  names of a listing are distinct.
\<close>

datatype node = File content | Dir "(string \<times> node) list"

type_synonym listing = "(string \<times> node) list"

definition is_file :: "node \<Rightarrow> bool" where
  "is_file x = (case x of File c \<Rightarrow> True | Dir es \<Rightarrow> False)"

definition exists_in :: "listing \<Rightarrow> string \<Rightarrow> bool" where
  "exists_in fs name = (name \<in> set (map fst fs))"

definition remove :: "string \<Rightarrow> listing \<Rightarrow> listing" where
  "remove name fs = filter (\<lambda>(n, x). n \<noteq> name) fs"

text \<open>
  \<open>put name x fs\<close>: the directory after \<open>x\<close> was written under \<open>name\<close>. An entry that had the
  name is replaced, as \<open>os.rename\<close> and \<open>shutil.move\<close> replace an existing file.
\<close>

definition put :: "string \<Rightarrow> node \<Rightarrow> listing \<Rightarrow> listing" where
  "put name x fs = remove name fs @ [(name, x)]"

section \<open>The rename script (scripts/rename\_dac\_files.py)\<close>

text \<open>
  The pattern \<open>(Zelda--param1-\d+\.\d+).*?(\.dac)\<close>, matched at the start of the name: the
  two groups when it matches. The digits are the ASCII digits. After the second run of
  digits the name must go on with \<open>.dac\<close>, at once or after characters that are not line
  breaks; since \<open>.dac\<close> starts with a point, giving back digits never helps the match.
\<close>

definition is_digit :: "char \<Rightarrow> bool" where
  "is_digit c = (c \<in> set ''0123456789'')"

fun find_dac :: "string \<Rightarrow> bool" where
  "find_dac [] = False"
| "find_dac (c # cs) = (take 4 (c # cs) = ''.dac'' \<or> (c \<noteq> CHR 0x0A \<and> find_dac cs))"

definition match_pattern :: "string \<Rightarrow> (string \<times> string) option" where
  "match_pattern filename =
     (if take 14 filename \<noteq> ''Zelda--param1-'' then None
      else
        (let rest = drop 14 filename;
             d1 = takeWhile is_digit rest
         in if d1 = [] then None
            else
              (case dropWhile is_digit rest of
                 [] \<Rightarrow> None
               | c # rest2 \<Rightarrow>
                   if c \<noteq> CHR ''.'' then None
                   else
                     (let d2 = takeWhile is_digit rest2
                      in if d2 = [] then None
                         else if find_dac (dropWhile is_digit rest2)
                         then Some (''Zelda--param1-'' @ d1 @ ''.'' @ d2, ''.dac'')
                         else None))))"

text \<open>\<open>glob("*.dac")\<close>: the names that end in \<open>.dac\<close> and do not start with a point.\<close>

definition glob_dac :: "listing \<Rightarrow> string list" where
  "glob_dac fs = filter (\<lambda>n. endswith n ''.dac'' \<and> take 1 n \<noteq> ''.'') (map fst fs)"

definition os_rename :: "string \<Rightarrow> string \<Rightarrow> listing \<Rightarrow> exn + listing" where
  "os_rename old new fs =
     (case map_of fs old of
        None \<Rightarrow> Inl (FileNotFoundError old)
      | Some x \<Rightarrow> Inr (put new x (remove old fs)))"

text \<open>One round of the loop of \<open>rename_dac_files\<close>, and the loop.\<close>

definition rename_one :: "string \<Rightarrow> listing \<times> log \<Rightarrow> exn + listing \<times> log" where
  "rename_one filename st =
     (case st of (fs, lg) \<Rightarrow>
        (case match_pattern filename of
           Some (base, ext) \<Rightarrow>
             (let new_filename = base @ ext
              in if filename \<noteq> new_filename then
                   (if exists_in fs new_filename
                    then Inr (fs, lg @ [(Warning, new_filename @ '' already exists, skipping '' @ filename)])
                    else (case os_rename filename new_filename fs of
                            Inl e \<Rightarrow> Inl e
                          | Inr fs' \<Rightarrow> Inr (fs', lg)))
                 else Inr (fs, lg))
         | None \<Rightarrow>
             Inr (fs, lg @ [(Warning, filename @ '' does not match the expected pattern, skipping'')])))"

fun rename_loop :: "string list \<Rightarrow> listing \<times> log \<Rightarrow> exn + listing \<times> log" where
  "rename_loop [] st = Inr st"
| "rename_loop (filename # rest) st =
     (case rename_one filename st of Inl e \<Rightarrow> Inl e | Inr st' \<Rightarrow> rename_loop rest st')"

definition rename_dac_files :: "listing \<Rightarrow> exn + listing \<times> log" where
  "rename_dac_files fs = rename_loop (glob_dac fs) (fs, [])"

section \<open>The flatten script (scripts/rename\_files.py)\<close>

text \<open>Reading a decimal numeral back, to tell the suffixes apart.\<close>

definition digit_value :: "char \<Rightarrow> nat" where
  "digit_value c = length (takeWhile (\<lambda>d. d \<noteq> c) ''0123456789'')"

definition read_nat :: "string \<Rightarrow> nat" where
  "read_nat s = foldl (\<lambda>a c. 10 * a + digit_value c) 0 s"

lemma digit_value_digit_char: "d < 10 \<Longrightarrow> digit_value (digit_char d) = d"
proof -
  assume "d < 10"
  then have "d \<in> {0, 1, 2, 3, 4, 5, 6, 7, 8, 9}" by auto
  then show ?thesis by (auto simp: digit_value_def digit_char_def)
qed

lemma read_nat_str_nat: "read_nat (str_nat n) = n"
proof (induction n rule: str_nat.induct)
  case (1 n)
  show ?case
  proof (cases "n < 10")
    case True
    then show ?thesis
      by (subst str_nat.simps) (simp add: read_nat_def digit_value_digit_char)
  next
    case False
    then have "read_nat (str_nat (n div 10)) = n div 10" using 1 by simp
    then show ?thesis using False
      by (subst str_nat.simps) (simp add: read_nat_def digit_value_digit_char)
  qed
qed

lemma str_nat_inj: "inj str_nat"
  by (rule inj_on_inverseI [of _ read_nat]) (rule read_nat_str_nat)

lemma suffixed_finite:
  "finite {k. P k \<and> name @ ''_'' @ str_nat k \<in> set names}"
proof -
  have "inj (\<lambda>k. name @ ''_'' @ str_nat k)"
    using str_nat_inj by (auto simp: inj_def)
  then have "finite ((\<lambda>k. name @ ''_'' @ str_nat k) -` set names)"
    by (intro finite_vimageI) simp_all
  then show ?thesis by (rule rev_finite_subset) auto
qed

text \<open>
  The search for a free name: \<open>name_1\<close>, \<open>name_2\<close>, ... until one does not exist.
\<close>

function next_free :: "listing \<Rightarrow> string \<Rightarrow> nat \<Rightarrow> string" where
  "next_free fs name suffix =
     (if exists_in fs (name @ ''_'' @ str_nat suffix) then next_free fs name (suffix + 1)
      else name @ ''_'' @ str_nat suffix)"
  by pat_completeness auto
termination
proof (relation "measure (\<lambda>(fs, name, suffix).
    card {k. suffix \<le> k \<and> name @ ''_'' @ str_nat k \<in> set (map fst fs)})")
  show "wf (measure (\<lambda>(fs, name, suffix).
    card {k. suffix \<le> k \<and> name @ ''_'' @ str_nat k \<in> set (map fst fs)}))"
    by simp
next
  fix fs :: listing and name :: string and suffix :: nat
  assume taken: "exists_in fs (name @ ''_'' @ str_nat suffix)"
  let ?A = "{k. suffix + 1 \<le> k \<and> name @ ''_'' @ str_nat k \<in> set (map fst fs)}"
  let ?B = "{k. suffix \<le> k \<and> name @ ''_'' @ str_nat k \<in> set (map fst fs)}"
  have "?A \<subseteq> ?B" by auto
  moreover have "suffix \<in> ?B" using taken by (simp add: exists_in_def)
  moreover have "suffix \<notin> ?A" by simp
  ultimately have "?A \<subset> ?B" by blast
  then have "card {k. suffix + 1 \<le> k \<and> name @ ''_'' @ str_nat k \<in> set (map fst fs)} <
      card {k. suffix \<le> k \<and> name @ ''_'' @ str_nat k \<in> set (map fst fs)}"
    by (intro psubset_card_mono suffixed_finite)
  then show "((fs, name, suffix + 1), (fs, name, suffix)) \<in> measure (\<lambda>(fs, name, suffix).
      card {k. suffix \<le> k \<and> name @ ''_'' @ str_nat k \<in> set (map fst fs)})"
    by simp
qed

declare next_free.simps [simp del]

text \<open>
  The destination of a move: the wanted name when it is free, otherwise the first free
  name with a numeric suffix.
\<close>

definition free_dest :: "listing \<Rightarrow> string \<Rightarrow> string" where
  "free_dest fs name = (if exists_in fs name then next_free fs name 1 else name)"

text \<open>
  The loop over the entries of a subdirectory with several entries: every regular file
  goes to the base directory under \<open>stem--name\<close>. The state is the base directory and
  what is left in the subdirectory.
\<close>

fun move_files :: "string \<Rightarrow> listing \<Rightarrow> listing \<times> listing \<Rightarrow> listing \<times> listing" where
  "move_files subdir_stem [] st = st"
| "move_files subdir_stem ((file_name, x) # rest) (base, remaining) =
     (if is_file x then
        (let new_filename = subdir_stem @ ''--'' @ file_name;
             dest_file = free_dest base new_filename
         in move_files subdir_stem rest (put dest_file x base, remove file_name remaining))
      else move_files subdir_stem rest (base, remaining))"

text \<open>
  One round of the loop of \<open>main\<close>, for the entry \<open>name\<close> of the base directory. In the
  branch for a single file the wanted destination is the subdirectory's own name, which
  exists: the file always gets a suffixed name.
\<close>

definition flatten_subdir :: "string \<Rightarrow> listing \<Rightarrow> listing" where
  "flatten_subdir name base =
     (case map_of base name of
        Some (Dir files) \<Rightarrow>
          if endswith name ''.dac'' then
            (if length files = 0 then remove name base
             else if length files = 1 \<and> is_file (snd (hd files)) then
               (let dest_file = free_dest base name
                in remove name (put dest_file (snd (hd files)) base))
             else
               (let (base', remaining) = move_files (stem name) files (base, files)
                in if remaining = [] then remove name base'
                   else map (\<lambda>(n, x). if n = name then (n, Dir remaining) else (n, x)) base'))
          else base
      | _ \<Rightarrow> base)"

text \<open>
  The loop of \<open>main\<close> over the entries that the base directory had at the start. The log
  lines of the script are not modelled.
\<close>

fun flatten_loop :: "string list \<Rightarrow> listing \<Rightarrow> listing" where
  "flatten_loop [] base = base"
| "flatten_loop (name # rest) base = flatten_loop rest (flatten_subdir name base)"

section \<open>Properties of the encode script\<close>

subsection \<open>The formatted parameter\<close>

lemma round_half_even_near: "\<bar>of_int (round_half_even x) - x\<bar> \<le> 1 / 2"
  unfolding round_half_even_def Let_def by (auto simp: abs_le_iff; linarith)

lemma round_half_even_between:
  "of_int a \<le> x \<Longrightarrow> x \<le> of_int b \<Longrightarrow> a \<le> round_half_even x \<and> round_half_even x \<le> b"
  unfolding round_half_even_def Let_def by (auto; linarith)

lemma str_nat_digit: "n < 10 \<Longrightarrow> str_nat n = [digit_char n]"
  by (simp add: str_nat.simps)

lemma format_05_2f_unit:
  assumes "0 \<le> v" "v \<le> 1"
  shows "format_05_2f v =
     (let k = nat (round_half_even (v * 100))
      in [CHR ''0'', digit_char (k div 100), CHR ''.'', digit_char (k mod 100 div 10), digit_char (k mod 10)])"
proof -
  have "of_int 0 \<le> v * 100" "v * 100 \<le> of_int 100" using assms by auto
  then have "0 \<le> round_half_even (v * 100) \<and> round_half_even (v * 100) \<le> 100"
    by (rule round_half_even_between)
  then have k: "nat (round_half_even (v * 100)) div 100 < 10" by auto
  show ?thesis using assms k
    by (simp add: format_05_2f_def Let_def str_nat_digit)
qed

lemma tens_units: "10 * ((k::nat) mod 100 div 10) + k mod 10 = k mod 100"
proof -
  have "k mod 100 mod 10 = k mod 10" by (simp add: mod_mod_cancel)
  then show ?thesis using div_mult_mod_eq [of "k mod 100" 10] by simp
qed

lemma hundredths_split:
  "real (k div 100) + real (10 * (k mod 100 div 10) + k mod 10) / 100 = real k / 100"
proof -
  have "100 * (k div 100) + k mod 100 = k" by simp
  then have "100 * (k div 100) + (10 * (k mod 100 div 10) + k mod 10) = k"
    by (simp only: tens_units)
  then have "real (100 * (k div 100) + (10 * (k mod 100 div 10) + k mod 10)) = real k"
    by (rule arg_cong)
  then show ?thesis by (simp add: field_simps)
qed

text \<open>
  Claim C1. For every class name and every real \<open>param1\<close> the output file name is the class
  name, then \<open>--param1-\<close>, then five characters \<open>NN.NN\<close> (two digits, a point, two digits),
  then \<open>.dac\<close>; the number the five characters spell is \<open>param1\<close> clamped to the interval
  from 0 to 1 and rounded to two decimals (it differs from the clamped value by at most
  half a hundredth).
\<close>

theorem generate_output_filename_format:
  "\<exists>d1 d2 d3 d4. d1 < 10 \<and> d2 < 10 \<and> d3 < 10 \<and> d4 < 10 \<and>
     generate_output_filename orig cname p =
       cname @ ''--param1-'' @
         [digit_char d1, digit_char d2, CHR ''.'', digit_char d3, digit_char d4] @ ''.dac'' \<and>
     \<bar>real (10 * d1 + d2) + real (10 * d3 + d4) / 100 - max 0 (min 1 p)\<bar> \<le> 1 / 200"
proof -
  define v where "v = max 0 (min 1 p)"
  define k where "k = nat (round_half_even (v * 100))"
  have v: "0 \<le> v" "v \<le> 1" by (auto simp: v_def)
  have "of_int 0 \<le> v * 100" "v * 100 \<le> of_int 100" using v by auto
  then have r: "0 \<le> round_half_even (v * 100) \<and> round_half_even (v * 100) \<le> 100"
    by (rule round_half_even_between)
  then have k100: "k \<le> 100" unfolding k_def by linarith
  have near: "\<bar>real k - v * 100\<bar> \<le> 1 / 2"
    using round_half_even_near [of "v * 100"] r by (simp add: k_def)
  have fmt: "format_param_value p =
      [digit_char 0, digit_char (k div 100), CHR ''.'', digit_char (k mod 100 div 10), digit_char (k mod 10)]"
    using format_05_2f_unit [OF v] by (simp add: format_param_value_def Let_def v_def k_def digit_char_def)
  have val: "real (10 * 0 + k div 100) + real (10 * (k mod 100 div 10) + k mod 10) / 100 = real k / 100"
    using hundredths_split [of k] by simp
  have close: "\<bar>real k / 100 - v\<bar> \<le> 1 / 200"
    using near by (simp add: abs_le_iff field_simps)
  have "\<bar>real (10 * 0 + k div 100) + real (10 * (k mod 100 div 10) + k mod 10) / 100 - max 0 (min 1 p)\<bar> \<le> 1 / 200"
    using close unfolding val v_def .
  moreover have "generate_output_filename orig cname p =
       cname @ ''--param1-'' @
         [digit_char 0, digit_char (k div 100), CHR ''.'', digit_char (k mod 100 div 10), digit_char (k mod 10)] @ ''.dac''"
    by (simp add: generate_output_filename_def Let_def fmt)
  moreover have "(0::nat) < 10" "k div 100 < 10" "k mod 100 div 10 < 10" "k mod 10 < 10"
    using k100 by auto
  ultimately show ?thesis by blast
qed

subsection \<open>Device selection\<close>

text \<open>
  Claim C5, as stated, says that every request other than \<open>auto\<close> is returned unchanged
  without probing. The selector compares the lower-cased request, so \<open>AUTO\<close> is probed
  like \<open>auto\<close>: on a machine with a working MPS backend it yields \<open>mps\<close>.
\<close>

theorem get_available_device_upper_case_counterexample:
  "''AUTO'' \<noteq> ''auto'' \<and>
   get_available_device
     \<lparr>mps_is_available = True, mps_alloc_ok = True,
      cuda_is_available = False, cuda_alloc_ok = False\<rparr> ''AUTO''
   = (''mps'', [MpsAvailable, MpsAlloc])"
  by (simp add: get_available_device_def lower_def lower_char_def)

text \<open>
  Claim C5, amended. A request whose lower-cased form is \<open>auto\<close> is probed in the order MPS,
  CUDA, CPU: the result is \<open>mps\<close> if MPS is available and its test allocation succeeds,
  otherwise \<open>cuda\<close> if CUDA is available and its test allocation succeeds, otherwise
  \<open>cpu\<close>; CUDA is probed only after MPS was found missing or failing. Every other request
  is returned unchanged and nothing is probed.
\<close>

theorem get_available_device_probe_order:
  "get_available_device env requested =
     (if lower requested = ''auto'' then
        ((if mps_is_available env \<and> mps_alloc_ok env then ''mps''
          else if cuda_is_available env \<and> cuda_alloc_ok env then ''cuda''
          else ''cpu''),
         [MpsAvailable] @ (if mps_is_available env then [MpsAlloc] else []) @
         (if mps_is_available env \<and> mps_alloc_ok env then []
          else [CudaAvailable] @ (if cuda_is_available env then [CudaAlloc] else [])))
      else (requested, []))"
  by (simp add: get_available_device_def probe_cuda_def)

subsection \<open>The original name is not used\<close>










section \<open>Properties of the reorganize script\<close>

lemma process_files_dirs:
  "fst (process_files args fl (src, dest, lg)) =
     (if move args then (\<lambda>n. if n \<in> set fl then None else src n) else src) \<and>
   fst (snd (process_files args fl (src, dest, lg))) =
     (\<lambda>n. if n \<in> set fl \<and> src n \<noteq> None then src n else dest n)"
proof (induction fl arbitrary: src dest lg)
  case Nil
  show ?case by simp
next
  case (Cons f fl)
  show ?case
  proof (cases "src f")
    case None
    then show ?thesis by (auto simp: process_file_def Cons fun_eq_iff)
  next
    case (Some c)
    show ?thesis
    proof (cases "move args")
      case True
      then show ?thesis using Some by (auto simp: process_file_def Cons fun_eq_iff)
    next
      case False
      then show ?thesis using Some by (auto simp: process_file_def Cons fun_eq_iff)
    qed
  qed
qed


lemma process_files_split:
  "process_files args fl st =
     (fst (process_files args fl st), fst (snd (process_files args fl st)),
      snd (snd (process_files args fl st)))"
  by simp




subsection \<open>An existing destination file is replaced\<close>

text \<open>
  Claim C9. The reorganize script writes the destination path without testing it: when
  the routed file's name is already in the destination directory, the round of the loop
  leaves that name with the source file's content, adds no other name, and logs nothing;
  after the whole list the name still holds the source file's content, and the only
  names the destination has gained are names of the list.
\<close>

theorem process_file_replaces_existing:
  assumes "src f = Some c" and "dest f = Some c'"
  shows "process_file args f (src, dest, lg) =
           ((if move args then src(f := None) else src), dest(f \<mapsto> c), lg) \<and>
         (\<forall>fl. f \<in> set fl \<longrightarrow>
            fst (snd (process_files args fl (src, dest, lg))) f = Some c \<and>
            dom (fst (snd (process_files args fl (src, dest, lg)))) =
              dom dest \<union> (set fl \<inter> dom src))"
  using assms by (auto simp: process_file_def process_files_dirs split: if_splits)

theorem process_file_replaces_existing_witness:
  "[''x.dac'' \<mapsto> 1::nat] ''x.dac'' = Some 1 \<and> [''x.dac'' \<mapsto> 7::nat] ''x.dac'' = Some 7 \<and>
   process_file
     \<lparr>train_excel = ''t.xlsx'', val_excel = ''v.xlsx'', source_dir = ''raw'',
      train_dir = ''tr'', val_dir = ''va'', move = False\<rparr>
     ''x.dac'' ([''x.dac'' \<mapsto> 1], [''x.dac'' \<mapsto> 7], []) =
     ([''x.dac'' \<mapsto> 1], [''x.dac'' \<mapsto> 1], [])"
proof -
  let ?args = "\<lparr>train_excel = ''t.xlsx'', val_excel = ''v.xlsx'', source_dir = ''raw'',
      train_dir = ''tr'', val_dir = ''va'', move = False\<rparr>"
  have h1: "[''x.dac'' \<mapsto> 1::nat] ''x.dac'' = Some 1" by simp
  have h2: "[''x.dac'' \<mapsto> 7::nat] ''x.dac'' = Some 7" by simp
  have "process_file ?args ''x.dac'' ([''x.dac'' \<mapsto> 1], [''x.dac'' \<mapsto> 7], []) =
     ((if move ?args then [''x.dac'' \<mapsto> 1](''x.dac'' := None) else [''x.dac'' \<mapsto> 1]),
      [''x.dac'' \<mapsto> 7](''x.dac'' \<mapsto> 1), [])"
    using process_file_replaces_existing
      [where src = "[''x.dac'' \<mapsto> 1]" and dest = "[''x.dac'' \<mapsto> 7]" and f = "''x.dac''"
        and c = 1 and c' = 7 and args = ?args and lg = "[]", OF h1 h2]
    by (rule conjunct1)
  then have "process_file ?args ''x.dac'' ([''x.dac'' \<mapsto> 1], [''x.dac'' \<mapsto> 7], []) =
     ([''x.dac'' \<mapsto> 1], [''x.dac'' \<mapsto> 1], [])"
    by simp
  then show ?thesis using h1 h2 by blast
qed

section \<open>Properties of the segment extractor\<close>





section \<open>Properties of the splitter\<close>








lemma one_class_count:
  "\<forall>x \<in> set f. Class_Name (snd x) = c \<Longrightarrow>
   length (filter (\<lambda>x. Class_Name (snd x) = cls) f) = (if cls = c then length f else 0)"
  by (induction f) auto











section \<open>Properties of the rename and flatten scripts\<close>

lemma next_free_not_taken: "\<not> exists_in fs (next_free fs name k)"
proof (induction fs name k rule: next_free.induct)
  case (1 fs name suffix)
  show ?case
  proof (cases "exists_in fs (name @ ''_'' @ str_nat suffix)")
    case True
    then show ?thesis using 1 by (subst next_free.simps) simp
  next
    case False
    then show ?thesis by (subst next_free.simps) simp
  qed
qed

lemma next_free_first:
  "\<exists>j \<ge> k. next_free fs name k = name @ ''_'' @ str_nat j \<and>
     (\<forall>i. k \<le> i \<and> i < j \<longrightarrow> exists_in fs (name @ ''_'' @ str_nat i))"
proof (induction fs name k rule: next_free.induct)
  case (1 fs name suffix)
  show ?case
  proof (cases "exists_in fs (name @ ''_'' @ str_nat suffix)")
    case True
    then obtain j where j: "suffix + 1 \<le> j" "next_free fs name (suffix + 1) = name @ ''_'' @ str_nat j"
      "\<forall>i. suffix + 1 \<le> i \<and> i < j \<longrightarrow> exists_in fs (name @ ''_'' @ str_nat i)"
      using 1 by blast
    have step: "next_free fs name suffix = next_free fs name (suffix + 1)"
      using True by (subst next_free.simps) simp
    have "\<forall>i. suffix \<le> i \<and> i < j \<longrightarrow> exists_in fs (name @ ''_'' @ str_nat i)"
    proof (intro allI impI)
      fix i assume i: "suffix \<le> i \<and> i < j"
      show "exists_in fs (name @ ''_'' @ str_nat i)"
      proof (cases "i = suffix")
        case True
        then show ?thesis using \<open>exists_in fs (name @ ''_'' @ str_nat suffix)\<close> by simp
      next
        case False
        then show ?thesis using i j(3) by simp
      qed
    qed
    then show ?thesis using j(1,2) step by (intro exI [of _ j]) simp
  next
    case False
    then have "next_free fs name suffix = name @ ''_'' @ str_nat suffix"
      by (subst next_free.simps) simp
    then show ?thesis by (intro exI [of _ suffix]) auto
  qed
qed

lemma free_dest_not_taken: "\<not> exists_in fs (free_dest fs name)"
  by (simp add: free_dest_def next_free_not_taken)

lemma map_of_remove: "map_of (remove name fs) n = (if n = name then None else map_of fs n)"
  by (induction fs) (auto simp: remove_def)

lemma map_of_put: "map_of (put name x fs) n = (if n = name then Some x else map_of fs n)"
  by (simp add: put_def map_add_def map_of_remove split: option.split)

lemma exists_in_map_of: "exists_in fs n \<longleftrightarrow> map_of fs n \<noteq> None"
  by (simp add: exists_in_def map_of_eq_None_iff)

lemma move_files_keeps:
  "map_of base n = Some y \<Longrightarrow> map_of (fst (move_files st files (base, remaining))) n = Some y"
proof (induction files arbitrary: base remaining)
  case Nil
  then show ?case by simp
next
  case (Cons e files)
  obtain f x where e: "e = (f, x)" by (cases e)
  show ?case
  proof (cases "is_file x")
    case True
    define dest where "dest = free_dest base (st @ ''--'' @ f)"
    have "\<not> exists_in base dest" by (simp add: dest_def free_dest_not_taken)
    then have "n \<noteq> dest" using Cons.prems by (auto simp: exists_in_map_of)
    then have "map_of (put dest x base) n = Some y" using Cons.prems by (simp add: map_of_put)
    then show ?thesis using True e Cons.IH by (simp add: Let_def dest_def)
  next
    case False
    then show ?thesis using e Cons by simp
  qed
qed

lemma map_of_retag:
  "map_of (map (\<lambda>(n, x). if n = name then (n, z) else (n, x)) fs) n =
     (if n = name then map_option (\<lambda>x. z) (map_of fs n) else map_of fs n)"
  by (induction fs) auto

lemma flatten_subdir_keeps_files:
  assumes "map_of base n = Some (File c)"
  shows "map_of (flatten_subdir name base) n = Some (File c)"
proof (cases "map_of base name")
  case None
  then show ?thesis using assms by (simp add: flatten_subdir_def)
next
  case (Some z)
  show ?thesis
  proof (cases z)
    case (File c')
    then show ?thesis using assms Some by (simp add: flatten_subdir_def)
  next
    case (Dir files)
    have ne: "n \<noteq> name" using assms Some Dir by auto
    have nd: "n \<noteq> free_dest base name"
      using free_dest_not_taken [of base name] assms by (auto simp: exists_in_map_of)
    have mv: "map_of (fst (move_files (stem name) files (base, files))) n = Some (File c)"
      using assms by (rule move_files_keeps)
    show ?thesis
      using assms Some Dir ne nd mv
      by (simp add: flatten_subdir_def Let_def map_of_remove map_of_put map_of_retag
          case_prod_beta)
  qed
qed

lemma flatten_loop_keeps_files:
  "map_of base n = Some (File c) \<Longrightarrow> map_of (flatten_loop names base) n = Some (File c)"
  by (induction names arbitrary: base) (simp_all add: flatten_subdir_keeps_files)

lemma remove_absent: "\<not> exists_in fs n \<Longrightarrow> remove n fs = fs"
  by (induction fs) (auto simp: remove_def exists_in_def)

lemma put_free: "\<not> exists_in fs n \<Longrightarrow> put n x fs = fs @ [(n, x)]"
  by (simp add: put_def remove_absent)

lemma exists_in_remove: "exists_in (remove old fs) n \<longleftrightarrow> exists_in fs n \<and> n \<noteq> old"
  by (auto simp: exists_in_def remove_def)

text \<open>
  Claim C3, as stated, says that on a name collision the rename and flatten scripts
  always find and use a free name with a numeric suffix. The rename script does not:
  when the shortened name exists it prints a warning and leaves the file under its old
  name.
\<close>

theorem rename_dac_files_collision_counterexample:
  "rename_dac_files
     [(''Zelda--param1-00.50_x.dac'', File 1), (''Zelda--param1-00.50.dac'', File 2)] =
   Inr ([(''Zelda--param1-00.50_x.dac'', File 1), (''Zelda--param1-00.50.dac'', File 2)],
        [(Warning, ''Zelda--param1-00.50.dac already exists, skipping Zelda--param1-00.50_x.dac'')])"
  by (simp add: rename_dac_files_def glob_dac_def endswith_def rename_one_def match_pattern_def
      is_digit_def exists_in_def Let_def)

text \<open>
  Claim C3, amended. Neither script overwrites an existing entry. The flatten script
  moves a file to the wanted name when that name is free and otherwise to the first of
  \<open>name_1\<close>, \<open>name_2\<close>, ... that is free; the destination it uses never exists, the move adds
  the file to the base directory and changes no other entry, and every regular file of
  the base directory is still there, with its content, after the whole run. The rename
  script renames a file to its shortened name only when that name does not exist; when
  it exists the file is skipped with a warning and the directory is left as it was.
\<close>

theorem moves_never_overwrite:
  "\<not> exists_in base (free_dest base name) \<and>
   (exists_in base name \<longrightarrow>
      (\<exists>k \<ge> 1. free_dest base name = name @ ''_'' @ str_nat k \<and>
         (\<forall>i. 1 \<le> i \<and> i < k \<longrightarrow> exists_in base (name @ ''_'' @ str_nat i)))) \<and>
   (\<not> exists_in base name \<longrightarrow> free_dest base name = name) \<and>
   (map_of base n = Some (File c) \<longrightarrow> map_of (flatten_loop names base) n = Some (File c)) \<and>
   (map_of base name = Some (Dir [(f, File c)]) \<and> endswith name ''.dac'' \<longrightarrow>
      flatten_subdir name base = remove name (base @ [(free_dest base name, File c)])) \<and>
   (is_file x \<longrightarrow>
      move_files st ((f, x) # rest) (base, remaining) =
        move_files st rest
          (base @ [(free_dest base (st @ ''--'' @ f), x)], remove f remaining)) \<and>
   (match_pattern filename = Some (b, e) \<and> filename \<noteq> b @ e \<and> exists_in fs (b @ e) \<longrightarrow>
      rename_one filename (fs, lg) =
        Inr (fs, lg @ [(Warning, (b @ e) @ '' already exists, skipping '' @ filename)])) \<and>
   (match_pattern filename = Some (b, e) \<and> filename \<noteq> b @ e \<and> \<not> exists_in fs (b @ e) \<and>
    map_of fs filename = Some y \<longrightarrow>
      rename_one filename (fs, lg) = Inr (remove filename fs @ [(b @ e, y)], lg))"
proof (intro conjI impI)
  show "\<not> exists_in base (free_dest base name)" by (rule free_dest_not_taken)
next
  assume "exists_in base name"
  then have "free_dest base name = next_free base name 1" by (simp add: free_dest_def)
  then show "\<exists>k \<ge> 1. free_dest base name = name @ ''_'' @ str_nat k \<and>
         (\<forall>i. 1 \<le> i \<and> i < k \<longrightarrow> exists_in base (name @ ''_'' @ str_nat i))"
    using next_free_first [of 1 base name] by simp
next
  assume "\<not> exists_in base name"
  then show "free_dest base name = name" by (simp add: free_dest_def)
next
  assume "map_of base n = Some (File c)"
  then show "map_of (flatten_loop names base) n = Some (File c)"
    by (rule flatten_loop_keeps_files)
next
  assume "map_of base name = Some (Dir [(f, File c)]) \<and> endswith name ''.dac''"
  then show "flatten_subdir name base = remove name (base @ [(free_dest base name, File c)])"
    by (simp add: flatten_subdir_def is_file_def Let_def put_free free_dest_not_taken)
next
  assume "is_file x"
  then show "move_files st ((f, x) # rest) (base, remaining) =
      move_files st rest (base @ [(free_dest base (st @ ''--'' @ f), x)], remove f remaining)"
    by (simp add: Let_def put_free free_dest_not_taken)
next
  assume "match_pattern filename = Some (b, e) \<and> filename \<noteq> b @ e \<and> exists_in fs (b @ e)"
  then show "rename_one filename (fs, lg) =
      Inr (fs, lg @ [(Warning, (b @ e) @ '' already exists, skipping '' @ filename)])"
    by (simp add: rename_one_def Let_def)
next
  assume a: "match_pattern filename = Some (b, e) \<and> filename \<noteq> b @ e \<and> \<not> exists_in fs (b @ e) \<and>
    map_of fs filename = Some y"
  then have "\<not> exists_in (remove filename fs) (b @ e)" by (simp add: exists_in_remove)
  then have "put (b @ e) y (remove filename fs) = remove filename fs @ [(b @ e, y)]"
    by (rule put_free)
  then show "rename_one filename (fs, lg) = Inr (remove filename fs @ [(b @ e, y)], lg)"
    using a by (simp add: rename_one_def Let_def os_rename_def)
qed

theorem moves_never_overwrite_witness:
  "map_of [(''a.dac'', Dir [(''x'', File 1)]), (''a.dac_1'', File 9)] ''a.dac'' =
     Some (Dir [(''x'', File 1)]) \<and>
   endswith ''a.dac'' ''.dac'' \<and>
   exists_in [(''a.dac'', Dir [(''x'', File 1)]), (''a.dac_1'', File 9)] ''a.dac'' \<and>
   free_dest [(''a.dac'', Dir [(''x'', File 1)]), (''a.dac_1'', File 9)] ''a.dac'' = ''a.dac_2'' \<and>
   flatten_subdir ''a.dac'' [(''a.dac'', Dir [(''x'', File 1)]), (''a.dac_1'', File 9)] =
     [(''a.dac_1'', File 9), (''a.dac_2'', File 1)]"
proof -
  let ?base = "[(''a.dac'', Dir [(''x'', File 1)]), (''a.dac_1'', File 9)]"
  have h1: "map_of ?base ''a.dac'' = Some (Dir [(''x'', File 1)])" by simp
  have h2: "endswith ''a.dac'' ''.dac''" by (simp add: endswith_def)
  have h3: "exists_in ?base ''a.dac''" by (simp add: exists_in_def)
  have one: "str_nat 1 = ''1''" by (subst str_nat.simps) (simp add: digit_char_def)
  have two: "str_nat 2 = ''2''" by (subst str_nat.simps) (simp add: digit_char_def)
  have "(1::nat) + 1 = 2" by simp
  then have two': "str_nat (1 + 1) = ''2''" using two by (simp only:)
  have e1: "exists_in ?base (''a.dac'' @ ''_'' @ str_nat 1)"
    unfolding one by (simp add: exists_in_def)
  have e2: "\<not> exists_in ?base (''a.dac'' @ ''_'' @ str_nat (1 + 1))"
    unfolding two' by (simp add: exists_in_def)
  have s1: "next_free ?base ''a.dac'' 1 = next_free ?base ''a.dac'' (1 + 1)"
    using next_free.simps [of ?base "''a.dac''" 1] e1 by (simp only: if_True)
  have s2: "next_free ?base ''a.dac'' (1 + 1) = ''a.dac'' @ ''_'' @ str_nat (1 + 1)"
    using next_free.simps [of ?base "''a.dac''" "1 + 1"] e2 by (simp only: if_False)
  have "free_dest ?base ''a.dac'' = ''a.dac'' @ ''_'' @ ''2''"
    unfolding free_dest_def using h3 s1 s2 two' by (simp only: if_True)
  then have fd: "free_dest ?base ''a.dac'' = ''a.dac_2''" by simp
  have "flatten_subdir ''a.dac'' ?base =
      remove ''a.dac'' (?base @ [(free_dest ?base ''a.dac'', File 1)])"
    using moves_never_overwrite [where base = ?base and name = "''a.dac''" and f = "''x''"
        and c = 1] h1 h2 by blast
  then have "flatten_subdir ''a.dac'' ?base = [(''a.dac_1'', File 9), (''a.dac_2'', File 1)]"
    unfolding fd by (simp add: remove_def)
  then show ?thesis using h1 h2 h3 fd by blast
qed

section \<open>What the scripts do when something is missing\<close>

text \<open>
  Claim C4, as stated, says that a missing spreadsheet is reported as a warning, that only
  the item concerned is skipped, and that the run goes on. In the reorganize script a
  training spreadsheet that cannot be read is reported as an error and ends the run: the
  validation rows are not processed, although their spreadsheet and their files are
  there.
\<close>

theorem reorganize_missing_sheet_counterexample:
  "reorganize_main
     \<lparr>train_excel = ''t.xlsx'', val_excel = ''v.xlsx'', source_dir = ''raw'',
      train_dir = ''tr'', val_dir = ''va'', move = False\<rparr>
     \<lparr>excel = [''v.xlsx'' \<mapsto> [\<lparr>Class_Name = ''A'', Full_File_Name = ''x.dac''\<rparr>]],
      source = Some [''x.dac'' \<mapsto> 1], train = None, val = None\<rparr>
   = Inr ([(Error, ''Error reading Excel files'')],
      \<lparr>excel = [''v.xlsx'' \<mapsto> [\<lparr>Class_Name = ''A'', Full_File_Name = ''x.dac''\<rparr>]],
       source = Some [''x.dac'' \<mapsto> 1], train = Some Map.empty, val = Some Map.empty\<rparr>)"
  by (simp add: reorganize_main_def makedirs_def)

text \<open>
  Claim C4, amended. A file name that does not match the pattern is reported by the
  rename script as a warning, and only that file is skipped: the loop goes on with the
  other files, on the same directory. A missing input directory is reported by the encode
  script as an error, and the run ends without any call of \<open>encode\<close>. A spreadsheet that
  cannot be read is reported by the reorganize script as an error, and the run ends after
  the two destination directories were made: no file is copied or moved.
\<close>

theorem missing_items_reported:
  "(match_pattern filename = None \<longrightarrow>
      rename_loop (filename # rest) (fs, lg) =
        rename_loop rest
          (fs, lg @ [(Warning, filename @ '' does not match the expected pattern, skipping'')])) \<and>
   encode_main encode env args Missing rnd =
     ([(Error, Input_directory_does_not_exist (Path (input_dir args)))], []) \<and>
   (excel d (train_excel a) = None \<or> excel d (val_excel a) = None \<longrightarrow>
      reorganize_main a d =
        Inr ([(Error, ''Error reading Excel files'')],
             d\<lparr>train := Some (makedirs (train d)), val := Some (makedirs (val d))\<rparr>))"
proof (intro conjI impI)
  assume "match_pattern filename = None"
  then show "rename_loop (filename # rest) (fs, lg) =
      rename_loop rest
        (fs, lg @ [(Warning, filename @ '' does not match the expected pattern, skipping'')])"
    by (simp add: rename_one_def)
next
  show "encode_main encode env args Missing rnd =
      ([(Error, Input_directory_does_not_exist (Path (input_dir args)))], [])"
    by (simp add: encode_main_def Let_def)
next
  assume "excel d (train_excel a) = None \<or> excel d (val_excel a) = None"
  then show "reorganize_main a d =
      Inr ([(Error, ''Error reading Excel files'')],
           d\<lparr>train := Some (makedirs (train d)), val := Some (makedirs (val d))\<rparr>)"
    by (auto simp: reorganize_main_def Let_def split: option.splits)
qed

theorem missing_items_reported_witness:
  "match_pattern ''junk.dac'' = None \<and>
   rename_loop [''junk.dac'', ''Zelda--param1-00.70_y.dac'']
     ([(''junk.dac'', File 3), (''Zelda--param1-00.70_y.dac'', File 4)], []) =
   Inr ([(''junk.dac'', File 3), (''Zelda--param1-00.70.dac'', File 4)],
        [(Warning, ''junk.dac does not match the expected pattern, skipping'')])"
proof -
  let ?fs = "[(''junk.dac'', File 3), (''Zelda--param1-00.70_y.dac'', File 4)]"
  have none: "match_pattern ''junk.dac'' = None" by (simp add: match_pattern_def)
  have "rename_loop [''junk.dac'', ''Zelda--param1-00.70_y.dac''] (?fs, []) =
      rename_loop [''Zelda--param1-00.70_y.dac'']
        (?fs, [] @ [(Warning, ''junk.dac'' @ '' does not match the expected pattern, skipping'')])"
    using missing_items_reported
      [where filename = "''junk.dac''" and rest = "[''Zelda--param1-00.70_y.dac'']"
        and fs = ?fs and lg = "[]"] none by blast
  also have "\<dots> = Inr ([(''junk.dac'', File 3), (''Zelda--param1-00.70.dac'', File 4)],
        [(Warning, ''junk.dac does not match the expected pattern, skipping'')])"
    by (simp add: rename_one_def match_pattern_def is_digit_def exists_in_def Let_def
        os_rename_def put_def remove_def)
  finally show ?thesis using none by blast
qed

end
